theory Spec2Isabelle
  imports Complex_Main "HOL-Library.Sublist" "HOL-Library.Multiset"
begin

section \<open>Python strings\<close>

text \<open>
  A Python \<^verbatim>\<open>str\<close> is a sequence of Unicode code points, so it is modelled as a list of
  natural numbers. Program literals are ASCII and are written through \<open>U\<close>.
\<close>

type_synonym pystr = "nat list"

definition U :: "string \<Rightarrow> pystr" where
  "U s = map of_char s"

text \<open>
  \<^verbatim>\<open>str.lower\<close> and \<^verbatim>\<open>str.upper\<close> apply the full case mapping of the Unicode
  Character Database to every code point; one code point may map to several. The rows
  transcribed here are the ASCII letters and the non-ASCII code points whose mapping
  has an ASCII letter in it or in its image under the other mapping:
  U+00DF (sharp s, upper \<open>SS\<close>), U+0130 (capital I with dot, lower \<open>i\<close> + U+0307),
  U+0131 (dotless i, upper \<open>I\<close>), U+017F (long s, upper \<open>S\<close>) and
  U+212A (Kelvin sign, lower \<open>k\<close>). Every other code point is left unchanged.
\<close>

definition lower_cp :: "nat \<Rightarrow> nat list" where
  "lower_cp c =
     (if 65 \<le> c \<and> c \<le> 90 then [c + 32]
      else if c = 304 then [105, 775]
      else if c = 8490 then [107]
      else [c])"

definition upper_cp :: "nat \<Rightarrow> nat list" where
  "upper_cp c =
     (if 97 \<le> c \<and> c \<le> 122 then [c - 32]
      else if c = 223 then [83, 83]
      else if c = 305 then [73]
      else if c = 383 then [83]
      else [c])"

definition py_lower :: "pystr \<Rightarrow> pystr" where
  "py_lower s = concat (map lower_cp s)"

definition py_upper :: "pystr \<Rightarrow> pystr" where
  "py_upper s = concat (map upper_cp s)"


section \<open>Symbol normalizer\<close>

text \<open>
  \<^verbatim>\<open>
  def get_symbol_from_name(name: str) -> str:
      if name.lower() in ["bitcoin", "btc"]:
          return "BTCUSDT"
      elif name.lower() in ["ethereum", "eth"]:
          return "ETHUSDT"
      else:
          return name.upper()
  \<close>
\<close>

definition get_symbol_from_name :: "pystr \<Rightarrow> pystr" where
  "get_symbol_from_name name =
     (if py_lower name \<in> set [U ''bitcoin'', U ''btc''] then U ''BTCUSDT''
      else if py_lower name \<in> set [U ''ethereum'', U ''eth''] then U ''ETHUSDT''
      else py_upper name)"




section \<open>Python values, exceptions and the environment\<close>

text \<open>
  The values that cross the interface: decoded JSON and the dictionaries the tools
  return. A \<^verbatim>\<open>dict\<close> is the list of its items in insertion order. A \<^verbatim>\<open>float\<close> is
  modelled by a real number, so rounding and infinities are outside the model; a NaN
  cell of a table is \<open>None\<close> of an option type.
\<close>

datatype pyval =
    PNone
  | PBool bool
  | PInt int
  | PFloat real
  | PStr pystr
  | PList "pyval list"
  | PDict "(pystr \<times> pyval) list"

text \<open>
  An exception is its class and the text \<^verbatim>\<open>str(e)\<close> gives. Only classes derived from
  \<^verbatim>\<open>Exception\<close> are modelled: these are the ones \<^verbatim>\<open>except Exception\<close> handles.
\<close>

datatype exn_class =
    ValueError | KeyError | TypeError | IndexError
  | HTTPError | JSONDecodeError | ConnectionError | OtherException

datatype exn = Exn exn_class pystr

fun class_of :: "exn \<Rightarrow> exn_class" where
  "class_of (Exn c m) = c"

fun exn_str :: "exn \<Rightarrow> pystr" where
  "exn_str (Exn c m) = m"

text \<open>Decimal rendering of an integer, as \<^verbatim>\<open>str(int)\<close> and an f-string give it.\<close>

fun digits_nat :: "nat \<Rightarrow> pystr" where
  "digits_nat n = (if n < 10 then [48 + n] else digits_nat (n div 10) @ [48 + n mod 10])"

declare digits_nat.simps [simp del]

definition str_int :: "int \<Rightarrow> pystr" where
  "str_int i = (if i < 0 then 45 # digits_nat (nat (- i)) else digits_nat (nat i))"

text \<open>The object \<^verbatim>\<open>requests.get\<close> returns, as far as the tools read it.\<close>

record response =
  status_code :: int
  reason :: pystr
  url :: pystr
  resp_text :: pystr
  json :: "exn + pyval"

text \<open>One row of an options table of the market-data provider, with the columns the
  tool reads. The strike column has no missing values; any other cell may be NaN.\<close>

record option_row =
  strike :: real
  lastPrice :: "real option"
  bid :: "real option"
  ask :: "real option"
  volume :: "real option"
  openInterest :: "real option"
  impliedVolatility :: "real option"

type_synonym dataframe = "option_row list"

record options =
  calls :: dataframe
  puts :: dataframe

text \<open>
  Everything outside the repository that the tools call:
  \<^item> \<open>requests_get\<close>: the HTTP client, which raises or returns a response;
  \<^item> \<open>datetime_now\<close>: the text of \<^verbatim>\<open>datetime.now()\<close> at the time of the call;
  \<^item> \<open>py_str\<close>: the text an f-string gives for a value that is not a \<^verbatim>\<open>str\<close>
    (the \<^verbatim>\<open>repr\<close> of a float, of a list, ...);
  \<^item> \<open>yf_Ticker\<close>: the constructor of the provider's ticker object, which raises or
    returns the ticker it holds;
  \<^item> \<open>option_chain\<close>: the provider's query for a ticker and an ISO date;
  \<^item> \<open>argsort\<close>: \<^verbatim>\<open>Series.argsort()\<close> with its default \<^verbatim>\<open>kind='quicksort'\<close>, which
    returns the positions that sort the values and is documented as not stable.
\<close>

record env =
  requests_get :: "pystr \<Rightarrow> exn + response"
  datetime_now :: pystr
  py_str :: "pyval \<Rightarrow> pystr"
  yf_Ticker :: "pystr \<Rightarrow> exn + pystr"
  option_chain :: "pystr \<Rightarrow> pystr \<Rightarrow> exn + options"
  argsort :: "real list \<Rightarrow> nat list"

text \<open>The text an f-string inserts for \<^verbatim>\<open>{v}\<close>: a \<^verbatim>\<open>str\<close> is inserted as it is.\<close>

fun fmt :: "env \<Rightarrow> pyval \<Rightarrow> pystr" where
  "fmt e (PStr s) = s"
| "fmt e (PInt i) = str_int i"
| "fmt e v = py_str e v"

text \<open>Subscription \<^verbatim>\<open>obj[key]\<close> with a string key: only a dict has string keys.\<close>

fun getitem :: "pyval \<Rightarrow> pystr \<Rightarrow> exn + pyval" where
  "getitem (PDict kvs) k =
     (case map_of kvs k of
        None \<Rightarrow> Inl (Exn KeyError ([39] @ k @ [39]))
      | Some v \<Rightarrow> Inr v)"
| "getitem v k = Inl (Exn TypeError (U ''object is not subscriptable with a str''))"

section \<open>Price fetcher\<close>

text \<open>
  \<^verbatim>\<open>
  def get_price(symbol: str) -> Any:
      symbol = get_symbol_from_name(symbol)
      url = f"https://api.binance.us/api/v3/ticker/price?symbol={symbol}"
      response = requests.get(url)
      if response.status_code != 200:
          return {"error": f"Failed to fetch price for symbol {symbol}. Status code: {response.status_code}"}
          with open(ACTIVITY_LOG_PATH, "a") as f:
              ...
      else:
          price = response.json()["price"]
          with open(ACTIVITY_LOG_PATH, "a") as f:
              f.write(
                  f"Successfully fetched price for {symbol}: {price}, Current Time: {datetime.now()}\n"
              )
      return f"The current price of {symbol} is {price}."
  \<close>
  The function takes the contents of the activity log and returns them with its result.
  The statements after the \<^verbatim>\<open>return\<close> of the first branch cannot run and have no
  counterpart here. Opening the log for appending is taken to succeed.
\<close>

definition price_url :: "pystr \<Rightarrow> pystr" where
  "price_url symbol = U ''https://api.binance.us/api/v3/ticker/price?symbol='' @ symbol"

definition price_error :: "pystr \<Rightarrow> int \<Rightarrow> pystr" where
  "price_error symbol status =
     U ''Failed to fetch price for symbol '' @ symbol @ U ''. Status code: '' @ str_int status"

definition price_log_line :: "pystr \<Rightarrow> pystr \<Rightarrow> pystr \<Rightarrow> pystr" where
  "price_log_line symbol price now =
     U ''Successfully fetched price for '' @ symbol @ U '': '' @ price
       @ U '', Current Time: '' @ now @ [10]"

definition price_message :: "pystr \<Rightarrow> pystr \<Rightarrow> pystr" where
  "price_message symbol price = U ''The current price of '' @ symbol @ U '' is '' @ price @ U ''.''"

definition get_price :: "env \<Rightarrow> pystr \<Rightarrow> pystr \<Rightarrow> (exn + pyval) \<times> pystr" where
  "get_price e logfile name =
     (let symbol = get_symbol_from_name name in
      case requests_get e (price_url symbol) of
        Inl x \<Rightarrow> (Inl x, logfile)
      | Inr response \<Rightarrow>
          if status_code response \<noteq> 200 then
            (Inr (PDict [(U ''error'', PStr (price_error symbol (status_code response)))]), logfile)
          else
            (case json response of
               Inl x \<Rightarrow> (Inl x, logfile)
             | Inr body \<Rightarrow>
                 (case getitem body (U ''price'') of
                    Inl x \<Rightarrow> (Inl x, logfile)
                  | Inr price \<Rightarrow>
                      (Inr (PStr (price_message symbol (fmt e price))),
                       logfile @ price_log_line symbol (fmt e price) (datetime_now e)))))"

text \<open>The resource \<^verbatim>\<open>resource://crypto_price/{symbol}\<close> is the same call.\<close>

definition get_crypto_price :: "env \<Rightarrow> pystr \<Rightarrow> pystr \<Rightarrow> (exn + pyval) \<times> pystr" where
  "get_crypto_price e logfile symbol = get_price e logfile symbol"

section \<open>24h statistics fetcher\<close>




text \<open>A structured error value: a dict with the key \<open>error\<close>.\<close>

fun is_error_dict :: "pyval \<Rightarrow> bool" where
  "is_error_dict (PDict kvs) = (map_of kvs (U ''error'') \<noteq> None)"
| "is_error_dict v = False"

subsection \<open>Mocked endpoints\<close>

text \<open>An endpoint that answers every request with status 200 and the body
  \<^verbatim>\<open>{"price": "65000.12"}\<close>, one that answers with status 400, and a clock.\<close>

definition mock_env :: "(pystr \<Rightarrow> exn + response) \<Rightarrow> env" where
  "mock_env get =
     \<lparr> requests_get = get,
       datetime_now = U ''2025-01-02 03:04:05.678901'',
       py_str = (\<lambda>v. U ''?''),
       yf_Ticker = (\<lambda>s. Inr s),
       option_chain = (\<lambda>s d. Inl (Exn OtherException (U ''no provider''))),
       argsort = (\<lambda>xs. []) \<rparr>"


definition bad_request :: "pystr \<Rightarrow> exn + response" where
  "bad_request u =
     Inr \<lparr> status_code = 400, reason = U ''Bad Request'', url = u,
           resp_text = U ''{}'', json = Inr (PDict []) \<rparr>"

section \<open>Calendar dates\<close>

text \<open>
  \<^verbatim>\<open>datetime.strptime(s, fmt).date()\<close> for the two formats the tool uses. CPython turns
  the format into a regular expression, matches it at the start of the string with
  backtracking, and raises \<^verbatim>\<open>ValueError\<close> when nothing matches, when text remains after
  the match, or when the fields are no date:
  \<^item> \<^verbatim>\<open>%m\<close> is \<^verbatim>\<open>1[0-2]|0[1-9]|[1-9]\<close>;
  \<^item> \<^verbatim>\<open>%d\<close> is \<^verbatim>\<open>3[0-1]|[1-2]\d|0[1-9]|[1-9]| [1-9]\<close>;
  \<^item> \<^verbatim>\<open>%Y\<close> is \<^verbatim>\<open>\d\d\d\d\<close>.
  Each function below lists the ways one directive matches a prefix of the input, in the
  order the alternatives are tried, with the value read and the rest of the input.
  The class \<^verbatim>\<open>\d\<close> is taken as the ASCII digits.
\<close>

record date =
  year :: nat
  month :: nat
  day :: nat

definition is_digit :: "nat \<Rightarrow> bool" where
  "is_digit c = (48 \<le> c \<and> c \<le> 57)"

definition re_m :: "pystr \<Rightarrow> (nat \<times> pystr) list" where
  "re_m s =
     (case s of
        a # b # r \<Rightarrow>
          (if a = 49 \<and> 48 \<le> b \<and> b \<le> 50 then [(10 + (b - 48), r)] else []) @
          (if a = 48 \<and> 49 \<le> b \<and> b \<le> 57 then [(b - 48, r)] else [])
      | _ \<Rightarrow> []) @
     (case s of
        a # r \<Rightarrow> (if 49 \<le> a \<and> a \<le> 57 then [(a - 48, r)] else [])
      | [] \<Rightarrow> [])"

definition re_d :: "pystr \<Rightarrow> (nat \<times> pystr) list" where
  "re_d s =
     (case s of
        a # b # r \<Rightarrow>
          (if a = 51 \<and> 48 \<le> b \<and> b \<le> 49 then [(30 + (b - 48), r)] else []) @
          (if 49 \<le> a \<and> a \<le> 50 \<and> is_digit b then [(10 * (a - 48) + (b - 48), r)] else []) @
          (if a = 48 \<and> 49 \<le> b \<and> b \<le> 57 then [(b - 48, r)] else [])
      | _ \<Rightarrow> []) @
     (case s of
        a # r \<Rightarrow> (if 49 \<le> a \<and> a \<le> 57 then [(a - 48, r)] else [])
      | [] \<Rightarrow> []) @
     (case s of
        a # b # r \<Rightarrow> (if a = 32 \<and> 49 \<le> b \<and> b \<le> 57 then [(b - 48, r)] else [])
      | _ \<Rightarrow> [])"

definition re_Y :: "pystr \<Rightarrow> (nat \<times> pystr) list" where
  "re_Y s =
     (case s of
        a # b # c # d # r \<Rightarrow>
          (if is_digit a \<and> is_digit b \<and> is_digit c \<and> is_digit d
           then [(1000 * (a - 48) + 100 * (b - 48) + 10 * (c - 48) + (d - 48), r)] else [])
      | _ \<Rightarrow> [])"

definition re_lit :: "nat \<Rightarrow> pystr \<Rightarrow> pystr list" where
  "re_lit c s = (case s of a # r \<Rightarrow> (if a = c then [r] else []) | [] \<Rightarrow> [])"

definition is_leap :: "nat \<Rightarrow> bool" where
  "is_leap y = (y mod 4 = 0 \<and> (y mod 100 \<noteq> 0 \<or> y mod 400 = 0))"

definition days_in_month :: "nat \<Rightarrow> nat \<Rightarrow> nat" where
  "days_in_month y m =
     (if m = 2 then (if is_leap y then 29 else 28)
      else if m = 4 \<or> m = 6 \<or> m = 9 \<or> m = 11 then 30
      else 31)"

text \<open>The constructor of a date: the year is from 1 to 9999, the day exists in the month.\<close>

definition make_date :: "nat \<Rightarrow> nat \<Rightarrow> nat \<Rightarrow> exn + date" where
  "make_date y m d =
     (if y < 1 then Inl (Exn ValueError (U ''year 0 is out of range''))
      else if d < 1 \<or> days_in_month y m < d then
        Inl (Exn ValueError (U ''day is out of range for month''))
      else Inr \<lparr> year = y, month = m, day = d \<rparr>)"

text \<open>The first match in backtracking order decides; text after it is an error.\<close>

definition finish_strptime :: "pystr \<Rightarrow> pystr \<Rightarrow> (nat \<times> nat \<times> nat \<times> pystr) list \<Rightarrow> exn + date" where
  "finish_strptime s format ms =
     (case ms of
        [] \<Rightarrow> Inl (Exn ValueError (U ''time data '' @ [39] @ s @ [39]
                      @ U '' does not match format '' @ [39] @ format @ [39]))
      | (y, m, d, rest) # _ \<Rightarrow>
          if rest \<noteq> [] then Inl (Exn ValueError (U ''unconverted data remains: '' @ rest))
          else make_date y m d)"

definition strptime_mdY :: "pystr \<Rightarrow> exn + date" where
  "strptime_mdY s =
     finish_strptime s (U ''%m/%d/%Y'')
       [(y, m, d, r5). (m, r1) \<leftarrow> re_m s, r2 \<leftarrow> re_lit 47 r1, (d, r3) \<leftarrow> re_d r2,
                       r4 \<leftarrow> re_lit 47 r3, (y, r5) \<leftarrow> re_Y r4]"

definition strptime_Ymd :: "pystr \<Rightarrow> exn + date" where
  "strptime_Ymd s =
     finish_strptime s (U ''%Y-%m-%d'')
       [(y, m, d, r5). (y, r1) \<leftarrow> re_Y s, r2 \<leftarrow> re_lit 45 r1, (m, r3) \<leftarrow> re_m r2,
                       r4 \<leftarrow> re_lit 45 r3, (d, r5) \<leftarrow> re_d r4]"

text \<open>\<^verbatim>\<open>exp_date.strftime("%Y-%m-%d")\<close>, with the year written in four digits.\<close>

definition pad2 :: "nat \<Rightarrow> pystr" where
  "pad2 n = [48 + n div 10 mod 10, 48 + n mod 10]"

definition pad4 :: "nat \<Rightarrow> pystr" where
  "pad4 n = [48 + n div 1000 mod 10, 48 + n div 100 mod 10, 48 + n div 10 mod 10, 48 + n mod 10]"

definition strftime_Ymd :: "date \<Rightarrow> pystr" where
  "strftime_Ymd dt = pad4 (year dt) @ [45] @ pad2 (month dt) @ [45] @ pad2 (day dt)"

section \<open>Option premium resolver\<close>

text \<open>
  \<^verbatim>\<open>
  def get_option_premium(symbol, strike, expiry_date, option_type="call"):
      try:
          try:
              if '/' in expiry_date:
                  exp_date = datetime.strptime(expiry_date, "%m/%d/%Y").date()
              else:
                  exp_date = datetime.strptime(expiry_date, "%Y-%m-%d").date()
          except ValueError:
              return {"error": f"Invalid date format: {expiry_date}. Use 'YYYY-MM-DD' or 'MM/DD/YYYY'"}
          ticker = yf.Ticker(symbol.upper())
          try:
              opt_chain = ticker.option_chain(exp_date.strftime("%Y-%m-%d"))
          except Exception as e:
              return {"error": f"Could not fetch options chain: {str(e)}. Make sure ..."}
          options_df = opt_chain.calls if option_type.lower() == "call" else opt_chain.puts
          matching_options = options_df[abs(options_df['strike'] - strike) < 0.01]
          if matching_options.empty:
              closest_strikes = options_df.iloc[(options_df['strike'] - strike).abs().argsort()[:5]]['strike'].tolist()
              return {"error": f"No option found with strike {strike}",
                      "available_strikes_nearby": closest_strikes,
                      "requested_strike": strike,
                      "expiry_date": exp_date.strftime("%Y-%m-%d"),
                      "option_type": option_type}
          option = matching_options.iloc[0]
          result = { ... }
          if result['bid'] is not None and result['ask'] is not None:
              result['mid_price'] = (result['bid'] + result['ask']) / 2
          return result
      except Exception as e:
          return {"error": f"Error fetching option premium: {str(e)}"}
  \<close>
  The model returns, with the result, the calls made to the provider in the order they
  were made. The parameter \<^verbatim>\<open>strike\<close> is called \<open>strike_req\<close>, since \<open>strike\<close> names the column.
\<close>

datatype provider_call =
    Ticker_call pystr
  | option_chain_call pystr pystr

definition parse_expiry :: "pystr \<Rightarrow> exn + date" where
  "parse_expiry expiry_date =
     (if 47 \<in> set expiry_date then strptime_mdY expiry_date else strptime_Ymd expiry_date)"

definition invalid_date :: "pystr \<Rightarrow> pyval" where
  "invalid_date expiry_date =
     PDict [(U ''error'', PStr (U ''Invalid date format: '' @ expiry_date
               @ U ''. Use '' @ [39] @ U ''YYYY-MM-DD'' @ [39] @ U '' or '' @ [39]
               @ U ''MM/DD/YYYY'' @ [39]))]"

definition chain_error :: "exn \<Rightarrow> pyval" where
  "chain_error x =
     PDict [(U ''error'', PStr (U ''Could not fetch options chain: '' @ exn_str x
               @ U ''. Make sure the expiry date is valid and the symbol has options available.''))]"

definition premium_error :: "exn \<Rightarrow> pyval" where
  "premium_error x = PDict [(U ''error'', PStr (U ''Error fetching option premium: '' @ exn_str x))]"

definition select_table :: "options \<Rightarrow> pystr \<Rightarrow> dataframe" where
  "select_table opt_chain option_type =
     (if py_lower option_type = U ''call'' then calls opt_chain else puts opt_chain)"

definition matching_options :: "dataframe \<Rightarrow> real \<Rightarrow> dataframe" where
  "matching_options options_df strike_req =
     filter (\<lambda>r. \<bar>strike r - strike_req\<bar> < 0.01) options_df"

text \<open>\<^verbatim>\<open>df.iloc[positions]\<close>: the rows at the positions, or \<^verbatim>\<open>IndexError\<close>.\<close>

definition iloc :: "dataframe \<Rightarrow> nat list \<Rightarrow> exn + dataframe" where
  "iloc df ps =
     (if list_all (\<lambda>p. p < length df) ps then Inr (map (\<lambda>p. df ! p) ps)
      else Inl (Exn IndexError (U ''positional indexers are out-of-bounds'')))"

definition closest_positions :: "env \<Rightarrow> dataframe \<Rightarrow> real \<Rightarrow> nat list" where
  "closest_positions e options_df strike_req =
     take 5 (argsort e (map (\<lambda>r. \<bar>strike r - strike_req\<bar>) options_df))"

definition not_found :: "env \<Rightarrow> real \<Rightarrow> real list \<Rightarrow> date \<Rightarrow> pystr \<Rightarrow> pyval" where
  "not_found e strike_req closest_strikes exp_date option_type =
     PDict [(U ''error'', PStr (U ''No option found with strike '' @ fmt e (PFloat strike_req))),
            (U ''available_strikes_nearby'', PList (map PFloat closest_strikes)),
            (U ''requested_strike'', PFloat strike_req),
            (U ''expiry_date'', PStr (strftime_Ymd exp_date)),
            (U ''option_type'', PStr option_type)]"

text \<open>\<^verbatim>\<open>float(x) if pd.notna(x) else None\<close> and \<^verbatim>\<open>int(x) if pd.notna(x) else 0\<close>;
  \<^verbatim>\<open>int\<close> of a float drops the fraction.\<close>

definition float_or_none :: "real option \<Rightarrow> pyval" where
  "float_or_none x = (case x of None \<Rightarrow> PNone | Some v \<Rightarrow> PFloat v)"

definition int_or_zero :: "real option \<Rightarrow> pyval" where
  "int_or_zero x =
     (case x of None \<Rightarrow> PInt 0
      | Some v \<Rightarrow> PInt (if 0 \<le> v then \<lfloor>v\<rfloor> else \<lceil>v\<rceil>))"

definition premium_result :: "pystr \<Rightarrow> option_row \<Rightarrow> date \<Rightarrow> pystr \<Rightarrow> (pystr \<times> pyval) list" where
  "premium_result symbol option exp_date option_type =
     (let result =
        [(U ''symbol'', PStr (py_upper symbol)),
         (U ''strike'', PFloat (strike option)),
         (U ''expiry_date'', PStr (strftime_Ymd exp_date)),
         (U ''option_type'', PStr (py_lower option_type)),
         (U ''last_price'', float_or_none (lastPrice option)),
         (U ''bid'', float_or_none (bid option)),
         (U ''ask'', float_or_none (ask option)),
         (U ''volume'', int_or_zero (volume option)),
         (U ''open_interest'', int_or_zero (openInterest option)),
         (U ''implied_volatility'', float_or_none (impliedVolatility option))]
      in case (map_of result (U ''bid''), map_of result (U ''ask'')) of
           (Some (PFloat b), Some (PFloat a)) \<Rightarrow> result @ [(U ''mid_price'', PFloat ((b + a) / 2))]
         | _ \<Rightarrow> result)"

text \<open>The part after the chain has been fetched.\<close>

definition resolve :: "env \<Rightarrow> options \<Rightarrow> pystr \<Rightarrow> real \<Rightarrow> date \<Rightarrow> pystr \<Rightarrow> exn + pyval" where
  "resolve e opt_chain symbol strike_req exp_date option_type =
     (let options_df = select_table opt_chain option_type in
      case matching_options options_df strike_req of
        [] \<Rightarrow>
          (case iloc options_df (closest_positions e options_df strike_req) of
             Inl x \<Rightarrow> Inl x
           | Inr rows \<Rightarrow> Inr (not_found e strike_req (map strike rows) exp_date option_type))
      | option # _ \<Rightarrow> Inr (PDict (premium_result symbol option exp_date option_type)))"

text \<open>The body of the outer \<^verbatim>\<open>try\<close>: \<open>Inl\<close> is an exception that reaches its handler.\<close>

definition premium_body ::
  "env \<Rightarrow> pystr \<Rightarrow> real \<Rightarrow> pystr \<Rightarrow> pystr \<Rightarrow> provider_call list \<times> (exn + pyval)" where
  "premium_body e symbol strike_req expiry_date option_type =
     (case parse_expiry expiry_date of
        Inl x \<Rightarrow>
          (if class_of x = ValueError then ([], Inr (invalid_date expiry_date)) else ([], Inl x))
      | Inr exp_date \<Rightarrow>
          (case yf_Ticker e (py_upper symbol) of
             Inl x \<Rightarrow> ([Ticker_call (py_upper symbol)], Inl x)
           | Inr ticker \<Rightarrow>
               (let calls_made = [Ticker_call (py_upper symbol),
                                  option_chain_call ticker (strftime_Ymd exp_date)] in
                case option_chain e ticker (strftime_Ymd exp_date) of
                  Inl x \<Rightarrow> (calls_made, Inr (chain_error x))
                | Inr opt_chain \<Rightarrow>
                    (calls_made, resolve e opt_chain symbol strike_req exp_date option_type))))"

definition get_option_premium ::
  "env \<Rightarrow> pystr \<Rightarrow> real \<Rightarrow> pystr \<Rightarrow> pystr \<Rightarrow> provider_call list \<times> (exn + pyval)" where
  "get_option_premium e symbol strike_req expiry_date option_type =
     (case premium_body e symbol strike_req expiry_date option_type of
        (calls_made, Inl x) \<Rightarrow> (calls_made, Inr (premium_error x))
      | (calls_made, Inr v) \<Rightarrow> (calls_made, Inr v))"

subsection \<open>What \<open>argsort\<close> promises\<close>

text \<open>The positions returned for the values \<open>xs\<close> are all the positions of \<open>xs\<close>, each once,
  and the values read in that order ascend. Nothing is said about equal values.\<close>

definition sorts_positions :: "nat list \<Rightarrow> real list \<Rightarrow> bool" where
  "sorts_positions ps xs =
     (distinct ps \<and> set ps = {0..<length xs} \<and> sorted (map (\<lambda>p. xs ! p) ps))"

text \<open>Two functions that keep the promise: one leaves equal values in table order, the
  other puts the later one first.\<close>

definition argsort_stable :: "real list \<Rightarrow> nat list" where
  "argsort_stable xs = sort_key (\<lambda>p. xs ! p) [0..<length xs]"

definition argsort_reversing :: "real list \<Rightarrow> nat list" where
  "argsort_reversing xs = sort_key (\<lambda>p. xs ! p) (rev [0..<length xs])"

text \<open>The nearby strikes as the specification words them: the five strikes at the smallest
  distance from the requested one, ascending by distance, ties in table order.\<close>

definition nearest_strikes_spec :: "dataframe \<Rightarrow> real \<Rightarrow> real list" where
  "nearest_strikes_spec options_df strike_req =
     take 5 (map strike (sort_key (\<lambda>r. \<bar>strike r - strike_req\<bar>) options_df))"

subsection \<open>A mocked provider\<close>

definition quote :: "real \<Rightarrow> real option \<Rightarrow> real option \<Rightarrow> option_row" where
  "quote k b a =
     \<lparr> strike = k, lastPrice = Some 2.5, bid = b, ask = a, volume = Some 12,
       openInterest = None, impliedVolatility = Some 0.4 \<rparr>"

definition chain_95_100_105 :: options where
  "chain_95_100_105 =
     \<lparr> calls = [quote 95 (Some 7) (Some 8), quote 100 (Some 2.4) (Some 2.6), quote 105 None (Some 1)],
       puts = [quote 90 (Some 1) (Some 2), quote 95 (Some 1) (Some 2), quote 100 (Some 1) (Some 2),
               quote 105 (Some 1) (Some 2), quote 110 (Some 1) (Some 2), quote 115 (Some 1) (Some 2)] \<rparr>"

definition provider_env ::
  "(pystr \<Rightarrow> exn + pystr) \<Rightarrow> (pystr \<Rightarrow> pystr \<Rightarrow> exn + options) \<Rightarrow> (real list \<Rightarrow> nat list) \<Rightarrow> env" where
  "provider_env tk oc srt =
     \<lparr> requests_get = (\<lambda>u. Inl (Exn ConnectionError (U ''offline''))),
       datetime_now = U ''2025-01-02 03:04:05.678901'',
       py_str = (\<lambda>v. U ''?''),
       yf_Ticker = tk,
       option_chain = oc,
       argsort = srt \<rparr>"

definition chain_env :: "(real list \<Rightarrow> nat list) \<Rightarrow> env" where
  "chain_env srt = provider_env (\<lambda>s. Inr s) (\<lambda>s d. Inr chain_95_100_105) srt"

section \<open>Properties of the symbol normalizer\<close>

lemma py_lower_Nil [simp]: "py_lower [] = []" by (simp add: py_lower_def)
lemma py_lower_Cons [simp]: "py_lower (c # cs) = lower_cp c @ py_lower cs" by (simp add: py_lower_def)
lemma py_upper_Nil [simp]: "py_upper [] = []" by (simp add: py_upper_def)
lemma py_upper_Cons [simp]: "py_upper (c # cs) = upper_cp c @ py_upper cs" by (simp add: py_upper_def)













section \<open>Properties of the price and statistics fetchers\<close>

lemma sublist_mid: "sublist xs (a @ xs @ b)"
  by (auto simp: sublist_def)

lemma sublist_end: "sublist xs (a @ xs)"
  unfolding sublist_def by (rule exI [of _ a], rule exI [of _ "[]"]) simp

lemma U_append: "U (a @ b) = U a @ U b"
  by (simp add: U_def)



text \<open>
  C7. When the endpoint answers with a status code other than 200, \<open>get_price\<close> returns
  a dict \<open>{error: message}\<close> whose message contains the normalized symbol and the status
  code, and the activity log is returned as it was.
\<close>

theorem get_price_error:
  assumes "requests_get e (price_url (get_symbol_from_name name)) = Inr r"
    and "status_code r \<noteq> 200"
  shows "\<exists>msg. get_price e logfile name = (Inr (PDict [(U ''error'', PStr msg)]), logfile)
           \<and> sublist (get_symbol_from_name name) msg
           \<and> sublist (str_int (status_code r)) msg"
proof -
  let ?msg = "price_error (get_symbol_from_name name) (status_code r)"
  have "get_price e logfile name = (Inr (PDict [(U ''error'', PStr ?msg)]), logfile)"
    using assms by (simp add: get_price_def Let_def)
  moreover have "sublist (get_symbol_from_name name) ?msg"
    unfolding price_error_def by (rule sublist_mid)
  moreover have "sublist (str_int (status_code r)) ?msg"
  proof -
    have "?msg = (U ''Failed to fetch price for symbol '' @ get_symbol_from_name name
                   @ U ''. Status code: '') @ str_int (status_code r)"
      by (simp add: price_error_def)
    then show ?thesis using sublist_end by metis
  qed
  ultimately show ?thesis by blast
qed



lemma mock_env_sel:
  "requests_get (mock_env g) = g"
  "datetime_now (mock_env g) = U ''2025-01-02 03:04:05.678901''"
  by (simp_all add: mock_env_def)


lemma sym_xyz: "get_symbol_from_name (U ''xyz'') = U ''XYZ''"
  by (simp add: get_symbol_from_name_def U_def lower_cp_def upper_cp_def)

lemma str_int_400: "str_int 400 = U ''400''"
  by (simp add: str_int_def digits_nat.simps U_def)


text \<open>The mocked endpoint that answers 400 to the request for \<open>xyz\<close>.\<close>

theorem get_price_error_witness:
  "get_price (mock_env bad_request) (U ''old'') (U ''xyz'') =
     (Inr (PDict [(U ''error'', PStr (U ''Failed to fetch price for symbol XYZ. Status code: 400''))]),
      U ''old'')
   \<and> sublist (U ''XYZ'') (U ''Failed to fetch price for symbol XYZ. Status code: 400'')
   \<and> sublist (U ''400'') (U ''Failed to fetch price for symbol XYZ. Status code: 400'')"
proof -
  let ?r = "\<lparr> status_code = 400, reason = U ''Bad Request'', url = price_url (U ''XYZ''),
           resp_text = U ''{}'', json = Inr (PDict []) \<rparr>"
  have 1: "requests_get (mock_env bad_request) (price_url (get_symbol_from_name (U ''xyz''))) = Inr ?r"
    by (simp add: mock_env_sel sym_xyz bad_request_def)
  have 2: "status_code ?r \<noteq> 200" by simp
  have 4: "price_error (U ''XYZ'') 400 = U ''Failed to fetch price for symbol XYZ. Status code: 400''"
    unfolding price_error_def str_int_400 by (simp add: U_def)
  from get_price_error [OF 1 2, of "U ''old''"] obtain msg where
    m: "get_price (mock_env bad_request) (U ''old'') (U ''xyz'') = (Inr (PDict [(U ''error'', PStr msg)]), U ''old'')"
      "sublist (get_symbol_from_name (U ''xyz'')) msg" "sublist (str_int (status_code ?r)) msg"
    by blast
  have "get_price (mock_env bad_request) (U ''old'') (U ''xyz'') =
     (Inr (PDict [(U ''error'', PStr (price_error (U ''XYZ'') 400))]), U ''old'')"
    by (simp add: get_price_def mock_env_sel sym_xyz bad_request_def)
  with m(1) have e: "msg = U ''Failed to fetch price for symbol XYZ. Status code: 400''"
    unfolding 4 by simp
  from m show ?thesis unfolding e sym_xyz by (simp add: str_int_400)
qed


end
